theory Spec2Isabelle
  imports Main
begin

section \<open>Python values, errors and operating-system primitives\<close>

text \<open>
  Exceptions of the Python sources are values: a function that can raise returns
  \<open>error + 'a\<close>, with \<open>Inl\<close> for the exception and its message.
\<close>

datatype error =
    FileNotFoundError string
  | ValueError string
  | TypeError string
  | KeyError string
  | OSError string

text \<open>\<open>s.startswith(p)\<close> of Python.\<close>

definition py_startswith :: "string \<Rightarrow> string \<Rightarrow> bool" where
  "py_startswith s p = (take (length p) s = p)"

section \<open>Running HADDOCK3 (scripts/lib/haddock.py, scripts/cyclic\_peptide\_cyclisation.py)\<close>

text \<open>
  What \<open>subprocess.run(..., timeout=timeout)\<close> did: the process ended with a return
  code (and its captured standard output and standard error), or the timeout expired and
  \<open>subprocess.TimeoutExpired\<close> was raised, or another exception was raised (for example
  when the \<open>mamba\<close> executable is missing).
\<close>

datatype proc_result =
    Exited int string string
  | TimeoutExpired
  | OtherException string

text \<open>
  One entry of \<open>work_dir.iterdir()\<close>, in the order the scan yields them: the entry's
  \<open>name\<close> and whether \<open>is_dir()\<close> holds for it. The scan itself can raise; then the
  listing is \<open>Inl\<close> with the exception's text.
\<close>

record dir_entry =
  entry_name :: string
  entry_is_dir :: bool

type_synonym listing = "string + dir_entry list"

definition is_run_dir :: "dir_entry \<Rightarrow> bool" where
  "is_run_dir d = (entry_is_dir d \<and> py_startswith (entry_name d) ''run'')"

text \<open>
  \<open>run_haddock3\<close> of scripts/lib/haddock.py. The result \<open>None\<close> is Python's \<open>None\<close>:
  the function reaches its end without a \<open>return\<close>. \<open>Some (ok, dir)\<close> is the returned
  pair. The \<open>print\<close> calls and the choice of the environment path only feed the console
  and the command line; they take no part in what is returned.
\<close>

definition run_haddock3 :: "proc_result \<Rightarrow> listing \<Rightarrow> (bool \<times> dir_entry option) option" where
  "run_haddock3 res ls =
     (case res of
        Exited returncode out err \<Rightarrow>
          if returncode = 0 then
            (case ls of
               Inl e \<Rightarrow> Some (False, None)
             | Inr entries \<Rightarrow>
                 (case filter is_run_dir entries of
                    [] \<Rightarrow> None
                  | output_dir # rest \<Rightarrow> Some (True, Some output_dir)))
          else Some (False, None)
      | TimeoutExpired \<Rightarrow> Some (False, None)
      | OtherException e \<Rightarrow> Some (False, None))"

text \<open>
  \<open>run_haddock3\<close> of scripts/cyclic\_peptide\_cyclisation.py: the same control flow, written
  a second time in that script.
\<close>

definition run_haddock3_script :: "proc_result \<Rightarrow> listing \<Rightarrow> (bool \<times> dir_entry option) option" where
  "run_haddock3_script res ls =
     (case res of
        Exited returncode out err \<Rightarrow>
          if returncode = 0 then
            (case ls of
               Inl e \<Rightarrow> Some (False, None)
             | Inr entries \<Rightarrow>
                 (case filter is_run_dir entries of
                    [] \<Rightarrow> None
                  | output_dir # rest \<Rightarrow> Some (True, Some output_dir)))
          else Some (False, None)
      | TimeoutExpired \<Rightarrow> Some (False, None)
      | OtherException e \<Rightarrow> Some (False, None))"

text \<open>
  \<open>success, output_path = value\<close>: unpacking a pair. Unpacking \<open>None\<close> raises
  \<open>TypeError\<close>.
\<close>

definition unpack_pair :: "('a \<times> 'b) option \<Rightarrow> error + ('a \<times> 'b)" where
  "unpack_pair v =
     (case v of
        None \<Rightarrow> Inl (TypeError ''cannot unpack non-iterable NoneType object'')
      | Some p \<Rightarrow> Inr p)"

section \<open>Strings as Python reads them\<close>

text \<open>
  A line of a text file is a list of characters; a \<open>char\<close> stands for a code point below
  256. \<open>str.strip()\<close> removes the white space of \<open>str.isspace()\<close> at both ends; below
  256 these are the code points 9 to 13, 28 to 32, 133 and 160.
\<close>

definition py_isspace :: "char \<Rightarrow> bool" where
  "py_isspace c =
     (let n = (of_char c :: nat)
      in (9 \<le> n \<and> n \<le> 13) \<or> (28 \<le> n \<and> n \<le> 32) \<or> n = 133 \<or> n = 160)"

definition py_strip :: "string \<Rightarrow> string" where
  "py_strip s = rev (dropWhile py_isspace (rev (dropWhile py_isspace s)))"

text \<open>\<open>s[i:j]\<close> for \<open>0 \<le> i \<le> j\<close>: a slice never raises, it is cut at the end of \<open>s\<close>.\<close>

definition py_slice :: "string \<Rightarrow> nat \<Rightarrow> nat \<Rightarrow> string" where
  "py_slice s i j = take (j - i) (drop i s)"

definition is_digit :: "char \<Rightarrow> bool" where
  "is_digit c = (let n = (of_char c :: nat) in 48 \<le> n \<and> n \<le> 57)"

definition digit_val :: "char \<Rightarrow> nat" where
  "digit_val c = (of_char c :: nat) - 48"

text \<open>
  The digits of a decimal literal after its first digit: digits, with single underscores
  allowed between two digits. \<open>None\<close> is \<open>ValueError\<close>.
\<close>

fun parse_digits :: "nat \<Rightarrow> string \<Rightarrow> nat option" where
  "parse_digits acc [] = Some acc"
| "parse_digits acc [c] =
     (if is_digit c then Some (10 * acc + digit_val c) else None)"
| "parse_digits acc (c # d # cs) =
     (if is_digit c then parse_digits (10 * acc + digit_val c) (d # cs)
      else if c = CHR ''_'' \<and> is_digit d then parse_digits (10 * acc + digit_val d) cs
      else None)"

text \<open>
  \<open>int(s)\<close> in base ten: white space around the literal is ignored, then an optional
  sign, then the digits. \<open>None\<close> is \<open>ValueError\<close>.
\<close>

definition py_int :: "string \<Rightarrow> int option" where
  "py_int s =
     (case py_strip s of
        [] \<Rightarrow> None
      | c # cs \<Rightarrow>
          (let neg = (c = CHR ''-'');
               body = (if c = CHR ''-'' \<or> c = CHR ''+'' then cs else c # cs)
           in case body of
                [] \<Rightarrow> None
              | d # ds \<Rightarrow>
                  if is_digit d then
                    (case parse_digits (digit_val d) ds of
                       None \<Rightarrow> None
                     | Some n \<Rightarrow> Some (if neg then - int n else int n))
                  else None))"

text \<open>\<open>c.lower()\<close> on one code point below 256.\<close>

definition py_lower_char :: "char \<Rightarrow> char" where
  "py_lower_char c =
     (let n = (of_char c :: nat)
      in if (65 \<le> n \<and> n \<le> 90) \<or> (192 \<le> n \<and> n \<le> 222 \<and> n \<noteq> 215)
         then char_of (n + 32) else c)"

definition py_lower :: "string \<Rightarrow> string" where
  "py_lower s = map py_lower_char s"

section \<open>The disk and pathlib\<close>

text \<open>
  What the sources ask of the operating system and of \<open>pathlib\<close>, for a path given as the
  string it was built from: \<open>Path(p).exists()\<close>, \<open>Path(p).stem\<close>, \<open>Path(p).suffix\<close>,
  \<open>str(Path(p))\<close>, \<open>str(Path(p) / q)\<close>, and the lines that iterating over
  \<open>open(p, 'r')\<close> yields (\<open>Inl\<close> with the exception's text when opening or reading
  raises). \<open>scripts_dir\<close> is \<open>str(SCRIPTS_DIR)\<close> of src/server.py.
\<close>

record os_env =
  path_exists :: "string \<Rightarrow> bool"
  path_stem :: "string \<Rightarrow> string"
  path_suffix :: "string \<Rightarrow> string"
  path_str :: "string \<Rightarrow> string"
  path_join :: "string \<Rightarrow> string \<Rightarrow> string"
  read_lines :: "string \<Rightarrow> string + string list"
  scripts_dir :: string

section \<open>Peptide length from a PDB file\<close>

definition is_atom_or_hetatm :: "string \<Rightarrow> bool" where
  "is_atom_or_hetatm line = (py_startswith line ''ATOM'' \<or> py_startswith line ''HETATM'')"

text \<open>
  The loop of \<open>get_peptide_length_from_pdb\<close>: the residue number is read from columns 23
  to 26 of every ATOM and HETATM record; a record whose field is no integer is skipped.
\<close>

fun residue_numbers :: "int set \<Rightarrow> string list \<Rightarrow> int set" where
  "residue_numbers acc [] = acc"
| "residue_numbers acc (line # rest) =
     (if is_atom_or_hetatm line then
        (case py_int (py_strip (py_slice line 22 26)) of
           Some res_num \<Rightarrow> residue_numbers (insert res_num acc) rest
         | None \<Rightarrow> residue_numbers acc rest)
      else residue_numbers acc rest)"

text \<open>
  \<open>get_peptide_length_from_pdb\<close> of scripts/cyclic\_peptide\_cyclisation.py; the copy in
  scripts/lib/validation.py has the same body. Every exception, also the \<open>ValueError\<close>
  raised for an empty set, is caught and raised again as \<open>ValueError\<close> with a prefix.
  \<open>pdb_file\<close> is the path as \<open>str\<close> prints it, \<open>file\<close> what reading it gives.
\<close>

definition get_peptide_length_from_pdb :: "string \<Rightarrow> string + string list \<Rightarrow> error + int" where
  "get_peptide_length_from_pdb pdb_file file =
     (case file of
        Inl e \<Rightarrow> Inl (ValueError (''Error reading PDB file '' @ pdb_file @ '': '' @ e))
      | Inr lines \<Rightarrow>
          (let rs = residue_numbers {} lines
           in if rs \<noteq> {} then Inr (Max rs)
              else Inl (ValueError (''Error reading PDB file '' @ pdb_file @ '': ''
                                     @ ''No valid residues found in PDB file''))))"

text \<open>
  The loop of \<open>estimate_peptide_length\<close> (examples/use\_case\_2\_cyclic\_peptide\_cyclisation.py):
  only ATOM records whose atom name, columns 13 to 16, is CA; here \<open>int\<close> is not guarded, so
  a field that is no integer ends the loop with an exception (\<open>None\<close>).
\<close>

fun ca_residues :: "int set \<Rightarrow> string list \<Rightarrow> int set option" where
  "ca_residues acc [] = Some acc"
| "ca_residues acc (line # rest) =
     (if py_startswith line ''ATOM'' \<and> py_strip (py_slice line 12 16) = ''CA'' then
        (case py_int (py_strip (py_slice line 22 26)) of
           Some resnum \<Rightarrow> ca_residues (insert resnum acc) rest
         | None \<Rightarrow> None)
      else ca_residues acc rest)"

definition estimate_peptide_length :: "string + string list \<Rightarrow> int" where
  "estimate_peptide_length file =
     (case file of
        Inl e \<Rightarrow> 14
      | Inr lines \<Rightarrow>
          (case ca_residues {} lines of
             None \<Rightarrow> 14
           | Some residues \<Rightarrow> int (card residues)))"

section \<open>The cyclisation script\<close>

text \<open>\<open>validate_input_file\<close> of scripts/cyclic\_peptide\_cyclisation.py.\<close>

definition validate_input_file :: "os_env \<Rightarrow> string \<Rightarrow> string \<Rightarrow> error + bool" where
  "validate_input_file env file_path file_type =
     (if \<not> path_exists env file_path then
        Inl (FileNotFoundError (file_type @ '' file not found: '' @ path_str env file_path))
      else if file_type = ''pdb'' \<and> py_lower (path_suffix env file_path) \<noteq> ''.pdb'' then
        Inl (ValueError (''Expected PDB file, got: '' @ path_suffix env file_path))
      else Inr True)"

text \<open>
  The dictionary that \<open>run_cyclic_peptide_cyclisation\<close> returns, one field for each of the
  keys \<open>success\<close>, \<open>output_dir\<close>, \<open>config_file\<close>, \<open>restraints_file\<close>, \<open>work_dir\<close> and
  \<open>peptide_length\<close>, without its \<open>metadata\<close> entry (the merged configuration, which no
  decision below reads).
\<close>

record cyc_result =
  res_success :: bool
  res_output_dir :: "string option"
  res_config_file :: string
  res_restraints_file :: string
  res_work_dir :: string
  res_peptide_length :: int

text \<open>
  \<open>run_cyclic_peptide_cyclisation\<close>. \<open>setup\<close> is the exception, if any, that
  \<open>work_dir.mkdir(exist_ok=True)\<close> or the writing of the restraints and configuration
  files raises (a missing parent directory, a file in the way, no permission); nothing
  catches it, and no process is started after it. \<open>res\<close> and \<open>ls\<close> are what the
  HADDOCK3 process and the scan of the working directory give. The arguments \<open>output_dir\<close>, \<open>config\<close> and the
  keyword overrides only fill the text of the configuration file and the timeout. What is written to the
  disk is not read back here; only the paths are kept.
\<close>

definition run_cyclic_peptide_cyclisation ::
  "os_env \<Rightarrow> error option \<Rightarrow> proc_result \<Rightarrow> listing \<Rightarrow> string \<Rightarrow> int option
     \<Rightarrow> string option \<Rightarrow> bool \<Rightarrow> error + cyc_result" where
  "run_cyclic_peptide_cyclisation env setup res ls peptide_file peptide_length_arg work_dir_arg
       dry_run =
     (let wd = (case work_dir_arg of None \<Rightarrow> ''./cyclisation_work'' | Some w \<Rightarrow> w)
      in case validate_input_file env peptide_file ''peptide'' of
           Inl e \<Rightarrow> Inl e
         | Inr ok \<Rightarrow>
             (case (case peptide_length_arg of
                      None \<Rightarrow> get_peptide_length_from_pdb (path_str env peptide_file)
                                (read_lines env peptide_file)
                    | Some n \<Rightarrow> Inr n) of
                Inl e \<Rightarrow> Inl e
              | Inr len \<Rightarrow>
                  (case setup of
                     Some e \<Rightarrow> Inl e
                   | None \<Rightarrow>
                       (let result =
                              \<lparr> res_success = False, res_output_dir = None,
                                res_config_file = path_join env wd ''cyclisation_config.cfg'',
                                res_restraints_file =
                                  path_join env wd ''cyclisation_restraints.tbl'',
                                res_work_dir = path_str env wd,
                                res_peptide_length = len \<rparr>
                        in if dry_run then Inr (result\<lparr>res_success := True\<rparr>)
                           else
                             (case unpack_pair (run_haddock3_script res ls) of
                                Inl e \<Rightarrow> Inl e
                              | Inr (ok, output_path) \<Rightarrow>
                                  (case output_path of
                                     Some d \<Rightarrow>
                                       if ok then
                                         Inr (result\<lparr>res_success := ok,
                                                     res_output_dir :=
                                                       Some (path_join env wd (entry_name d))\<rparr>)
                                       else Inr (result\<lparr>res_success := ok\<rparr>)
                                   | None \<Rightarrow> Inr (result\<lparr>res_success := ok\<rparr>)))))))"

section \<open>Dictionaries and values of the tool interface\<close>

text \<open>
  The values that the tools put into their dictionaries: \<open>None\<close>, a string or an
  integer. A dictionary is an association list in insertion order; \<open>d.get(k)\<close> is the
  first entry for \<open>k\<close>.
\<close>

datatype pyval = PyNone | PyStr string | PyInt int

type_synonym pydict = "(string \<times> pyval) list"

definition dict_get :: "pydict \<Rightarrow> string \<Rightarrow> pyval option" where
  "dict_get d k = map_of d k"

text \<open>
  \<open>str(n)\<close> for an integer: its decimal digits, the last digit first onto the digits
  already produced, and a minus sign in front of a negative number.
\<close>

fun decimal :: "nat \<Rightarrow> string \<Rightarrow> string" where
  "decimal n ds =
     (if n < 10 then char_of (48 + n) # ds
      else decimal (n div 10) (char_of (48 + n mod 10) # ds))"

definition str_nat :: "nat \<Rightarrow> string" where
  "str_nat n = decimal n []"



text \<open>
  An optional string argument: \<open>None\<close> and the empty string are false in a condition;
  \<open>v or d\<close> is \<open>v\<close> when \<open>v\<close> is true and \<open>d\<close> otherwise.
\<close>

definition truthy :: "string option \<Rightarrow> bool" where
  "truthy v = (case v of None \<Rightarrow> False | Some s \<Rightarrow> s \<noteq> [])"

definition str_or :: "string option \<Rightarrow> string \<Rightarrow> string" where
  "str_or v d = (case v of None \<Rightarrow> d | Some s \<Rightarrow> if s = [] then d else s)"

definition opt_str :: "string option \<Rightarrow> pyval" where
  "opt_str v = (case v of None \<Rightarrow> PyNone | Some s \<Rightarrow> PyStr s)"

definition opt_int :: "int option \<Rightarrow> pyval" where
  "opt_int v = (case v of None \<Rightarrow> PyNone | Some i \<Rightarrow> PyInt i)"

section \<open>The submit tools of src/server.py\<close>

text \<open>
  The keyword arguments of one call \<open>job_manager.submit_job(script_path=..., args=...,
  job_name=...)\<close>.
\<close>

record submit_request =
  req_script_path :: string
  req_args :: pydict
  req_job_name :: string

text \<open>
  The module \<open>jobs.manager\<close> is not among the sources. The tools are therefore written over
  any \<open>submit_job\<close>: a function from the request and the manager's state to the returned
  dictionary and the new state. A tool that returns its own dictionary returns the state it
  was given.
\<close>

type_synonym 's submit_job = "submit_request \<Rightarrow> 's \<Rightarrow> pydict \<times> 's"

definition error_dict :: "string \<Rightarrow> pydict" where
  "error_dict msg = [(''status'', PyStr ''error''), (''error'', PyStr msg)]"

definition submit_protein_peptide_docking ::
  "'s submit_job \<Rightarrow> os_env \<Rightarrow> string \<Rightarrow> string \<Rightarrow> string option \<Rightarrow> string option
     \<Rightarrow> string option \<Rightarrow> 's \<Rightarrow> pydict \<times> 's" where
  "submit_protein_peptide_docking submit_job env protein_file peptide_file output_dir
       restraints_file job_name st =
     (let script_path = path_join env (scripts_dir env) ''protein_peptide_docking.py''
      in if \<not> path_exists env protein_file then
           (error_dict (''Protein file not found: '' @ protein_file), st)
         else if \<not> path_exists env peptide_file then
           (error_dict (''Peptide file not found: '' @ peptide_file), st)
         else if truthy restraints_file \<and> \<not> path_exists env (the restraints_file) then
           (error_dict (''Restraints file not found: '' @ the restraints_file), st)
         else
           submit_job
             \<lparr> req_script_path = script_path,
               req_args = [(''input_protein'', PyStr protein_file),
                           (''input_peptide'', PyStr peptide_file),
                           (''output_dir'', opt_str output_dir),
                           (''restraints_file'', opt_str restraints_file)],
               req_job_name =
                 str_or job_name (''protein_peptide_docking_'' @ path_stem env peptide_file) \<rparr>
             st)"

definition submit_cyclic_peptide_cyclisation ::
  "'s submit_job \<Rightarrow> os_env \<Rightarrow> string \<Rightarrow> int option \<Rightarrow> string option \<Rightarrow> string option
     \<Rightarrow> 's \<Rightarrow> pydict \<times> 's" where
  "submit_cyclic_peptide_cyclisation submit_job env peptide_file peptide_len output_dir
       job_name st =
     (let script_path = path_join env (scripts_dir env) ''cyclic_peptide_cyclisation.py''
      in if \<not> path_exists env peptide_file then
           (error_dict (''Peptide file not found: '' @ peptide_file), st)
         else
           submit_job
             \<lparr> req_script_path = script_path,
               req_args = [(''input'', PyStr peptide_file),
                           (''peptide_length'', opt_int peptide_len),
                           (''output_dir'', opt_str output_dir)],
               req_job_name = str_or job_name (''cyclisation_'' @ path_stem env peptide_file) \<rparr>
             st)"

definition submit_information_driven_docking ::
  "'s submit_job \<Rightarrow> os_env \<Rightarrow> string \<Rightarrow> string \<Rightarrow> string option \<Rightarrow> string option
     \<Rightarrow> string option \<Rightarrow> string option \<Rightarrow> string option \<Rightarrow> string option
     \<Rightarrow> 's \<Rightarrow> pydict \<times> 's" where
  "submit_information_driven_docking submit_job env protein_file peptide_file
       active_protein_residues active_peptide_residues passive_protein_residues
       passive_peptide_residues output_dir job_name st =
     (let script_path = path_join env (scripts_dir env) ''information_driven_docking.py''
      in if \<not> path_exists env protein_file then
           (error_dict (''Protein file not found: '' @ protein_file), st)
         else if \<not> path_exists env peptide_file then
           (error_dict (''Peptide file not found: '' @ peptide_file), st)
         else if \<not> (truthy active_protein_residues \<or> truthy active_peptide_residues
                    \<or> truthy passive_protein_residues \<or> truthy passive_peptide_residues) then
           (error_dict (''At least one set of restraint residues must be provided ''
                          @ ''for information-driven docking''), st)
         else
           submit_job
             \<lparr> req_script_path = script_path,
               req_args = [(''input_protein'', PyStr protein_file),
                           (''input_peptide'', PyStr peptide_file),
                           (''active_protein_residues'', opt_str active_protein_residues),
                           (''active_peptide_residues'', opt_str active_peptide_residues),
                           (''passive_protein_residues'', opt_str passive_protein_residues),
                           (''passive_peptide_residues'', opt_str passive_peptide_residues),
                           (''output_dir'', opt_str output_dir)],
               req_job_name = str_or job_name (''info_docking_'' @ path_stem env peptide_file) \<rparr>
             st)"

subsection \<open>Batch submission\<close>






text \<open>
  A \<open>submit_job\<close> that only records the requests it receives, in order, and rejects each
  of them: its state is the list of the calls made to it.
\<close>

definition recording_submit_job :: "submit_request list submit_job" where
  "recording_submit_job req calls = (error_dict ''rejected'', calls @ [req])"


section \<open>The job-management tools of src/server.py\<close>

text \<open>
  \<open>get_job_log(job_id, tail=50)\<close> and \<open>cancel_job(job_id)\<close> hand their arguments to the
  job manager and return what it returns; \<open>tail\<close> is 50 when the caller gives none.
\<close>

definition get_job_log :: "(string \<Rightarrow> nat \<Rightarrow> 'r) \<Rightarrow> string \<Rightarrow> nat option \<Rightarrow> 'r" where
  "get_job_log manager_get_job_log job_id tail =
     manager_get_job_log job_id (case tail of None \<Rightarrow> 50 | Some n \<Rightarrow> n)"

definition cancel_job :: "(string \<Rightarrow> 's \<Rightarrow> pydict \<times> 's) \<Rightarrow> string \<Rightarrow> 's \<Rightarrow> pydict \<times> 's" where
  "cancel_job manager_cancel_job job_id st = manager_cancel_job job_id st"

section \<open>The job manager, from the specification\<close>

text \<open>
  Modelled from the spec: the module \<open>jobs.manager\<close> (the object \<open>job_manager\<close> that
  src/server.py imports) is not among the sources. The status of a Job Record, section 3.
\<close>

datatype job_status = Pending | Running | Completed | Failed | Cancelled

text \<open>
  Modelled from the spec: the terminal states of \<open>jobs.manager\<close>, from the glossary:
  completed, failed or cancelled.
\<close>

definition terminal :: "job_status \<Rightarrow> bool" where
  "terminal s = (s = Completed \<or> s = Failed \<or> s = Cancelled)"

text \<open>
  Modelled from the spec: the names of the states of \<open>jobs.manager\<close>, as the status filter
  of \<open>list\<close> gives them.
\<close>

definition status_name :: "job_status \<Rightarrow> string" where
  "status_name s =
     (case s of Pending \<Rightarrow> ''pending'' | Running \<Rightarrow> ''running'' | Completed \<Rightarrow> ''completed''
              | Failed \<Rightarrow> ''failed'' | Cancelled \<Rightarrow> ''cancelled'')"

text \<open>
  Modelled from the spec: the Job Record of \<open>jobs.manager\<close>, section 3, field by field.
  Time stamps are readings of a clock, natural numbers. The process handle, owned by the
  Job Runner and never exposed, is left out; \<open>j_cancel_requested\<close> is the cancellation flag
  of section 5.
\<close>

record job =
  j_id :: string
  j_script_path :: string
  j_args :: pydict
  j_name :: string
  j_status :: job_status
  j_submitted_at :: nat
  j_started_at :: "nat option"
  j_finished_at :: "nat option"
  j_exit_code :: "int option"
  j_log :: "string list"
  j_result :: "string option"
  j_error :: "string option"
  j_cancel_requested :: bool

text \<open>
  Modelled from the spec: the Job Store of \<open>jobs.manager\<close>, section 2 and section 5: the
  registry of the Job Records in the order of their submission, the source of fresh
  identifiers and the concurrency limit.
\<close>

record job_store =
  jobs :: "job list"
  next_id :: nat
  max_concurrent :: nat


text \<open>Modelled from the spec: looking a job up in the store of \<open>jobs.manager\<close> by its identifier.\<close>

definition find_job :: "job_store \<Rightarrow> string \<Rightarrow> job option" where
  "find_job store jid = find (\<lambda>j. j_id j = jid) (jobs store)"

text \<open>
  Modelled from the spec: one mutation of the record with a given identifier in the store
  of \<open>jobs.manager\<close>; the other records and the order of the registry stay as they are.
\<close>

definition update_job :: "string \<Rightarrow> (job \<Rightarrow> job) \<Rightarrow> job_store \<Rightarrow> job_store" where
  "update_job jid f store =
     store\<lparr>jobs := map (\<lambda>j. if j_id j = jid then f j else j) (jobs store)\<rparr>"

text \<open>
  Modelled from the spec: \<open>submit\<close> of \<open>jobs.manager\<close>, section 4.1: "Validates that
  script\_path is resolvable; fails fast with a validation error if not, without creating
  a Job Record. On success, returns immediately after recording the job as pending". The
  text of the error message is not specified.
\<close>

definition mgr_submit_job :: "os_env \<Rightarrow> nat \<Rightarrow> job_store submit_job" where
  "mgr_submit_job env now req store =
     (if \<not> path_exists env (req_script_path req) then
        (error_dict (''Script not found: '' @ req_script_path req), store)
      else
        (let jid = str_nat (next_id store);
             j = \<lparr> j_id = jid, j_script_path = req_script_path req, j_args = req_args req,
                   j_name = req_job_name req, j_status = Pending, j_submitted_at = now,
                   j_started_at = None, j_finished_at = None, j_exit_code = None,
                   j_log = [], j_result = None, j_error = None,
                   j_cancel_requested = False \<rparr>
         in ([(''status'', PyStr ''submitted''), (''job_id'', PyStr jid)],
             store\<lparr>jobs := jobs store @ [j], next_id := Suc (next_id store)\<rparr>)))"

text \<open>
  Modelled from the spec: \<open>list\<close> of \<open>jobs.manager\<close>, section 4.1: the jobs in order,
  optionally restricted to one status value, and their number.
\<close>

definition mgr_list_jobs :: "job_store \<Rightarrow> string option \<Rightarrow> job list \<times> nat" where
  "mgr_list_jobs store status_filter =
     (let js = filter (\<lambda>j. case status_filter of
                              None \<Rightarrow> True
                            | Some s \<Rightarrow> status_name (j_status j) = s) (jobs store)
      in (js, length js))"

text \<open>
  Modelled from the spec: the answer of \<open>get_log\<close> of \<open>jobs.manager\<close>, section 4.1:
  \<open>{lines, total_line_count}\<close>.
\<close>

record log_view =
  lv_lines :: "string list"
  lv_total_line_count :: nat

text \<open>
  Modelled from the spec: \<open>get_log\<close> of \<open>jobs.manager\<close>, section 4.1: "tail = 0 returns
  the full log; tail = N > 0 returns exactly the last min(N, total\_line\_count) lines". The
  specification defines it for \<open>tail \<ge> 0\<close> only, hence a natural number. An unknown
  identifier gives the structured error of section 7.
\<close>

definition mgr_get_job_log :: "job_store \<Rightarrow> string \<Rightarrow> nat \<Rightarrow> pydict + log_view" where
  "mgr_get_job_log store jid tail =
     (case find_job store jid of
        None \<Rightarrow> Inl [(''error'', PyStr ''not found'')]
      | Some j \<Rightarrow>
          Inr \<lparr> lv_lines =
                  (if tail = 0 then j_log j
                   else drop (length (j_log j) - min tail (length (j_log j))) (j_log j)),
                lv_total_line_count = length (j_log j) \<rparr>)"

text \<open>
  Modelled from the spec: \<open>cancel\<close> of \<open>jobs.manager\<close>, section 4.1 and section 5:
  an unknown identifier is \<open>{error: not found}\<close>; a job in a terminal state is
  \<open>{status: noop, message}\<close> and nothing changes; otherwise the request is recorded on the
  Job Record and the answer is \<open>{status: cancelled}\<close>. The caller "only requests or
  observes": the transition itself is the Job Runner's.
\<close>

definition mgr_cancel_job :: "string \<Rightarrow> job_store \<Rightarrow> pydict \<times> job_store" where
  "mgr_cancel_job jid store =
     (case find_job store jid of
        None \<Rightarrow> ([(''error'', PyStr ''not found'')], store)
      | Some j \<Rightarrow>
          if terminal (j_status j) then
            ([(''status'', PyStr ''noop''),
              (''message'', PyStr (''Job is already '' @ status_name (j_status j)))], store)
          else
            ([(''status'', PyStr ''cancelled'')],
             update_job jid (\<lambda>j. j\<lparr>j_cancel_requested := True\<rparr>) store))"

text \<open>
  Modelled from the spec: what the Job Runner of \<open>jobs.manager\<close> does to a Job Record,
  section 4.2: it starts the process (job and time), appends a line of output, sees the
  process exit (exit code, the scan of the working directory, the tail of the error stream,
  time), sees the timeout expire, or finishes a requested cancellation.
\<close>

datatype runner_event =
    Start string nat
  | Output string string
  | Exit string int "dir_entry list" string nat
  | Timeout string nat
  | CancelDone string nat

text \<open>
  Modelled from the spec: the concurrency limit of \<open>jobs.manager\<close>, section 5: a slot is
  free while fewer jobs run than the limit allows.
\<close>

definition slot_available :: "job_store \<Rightarrow> bool" where
  "slot_available store
     = (length (filter (\<lambda>j. j_status j = Running) (jobs store)) < max_concurrent store)"

text \<open>
  Modelled from the spec: the result by convention of \<open>jobs.manager\<close>, section 4.2 and
  section 6: the first subdirectory of the working directory with the expected prefix.
\<close>

definition derive_result :: "dir_entry list \<Rightarrow> string option" where
  "derive_result entries =
     (case filter is_run_dir entries of [] \<Rightarrow> None | d # rest \<Rightarrow> Some (entry_name d))"

text \<open>
  Modelled from the spec: the transitions of one Job Record in \<open>jobs.manager\<close>, section
  4.2: pending to running when a slot is free (checked by \<open>runner_step\<close>), running to
  completed on exit code 0, running to failed on another exit code or on the timeout,
  running to cancelled on a requested cancellation; output is appended while the job runs.
  In every other state the event changes nothing.
\<close>

fun runner_job :: "runner_event \<Rightarrow> job \<Rightarrow> job" where
  "runner_job (Start jid now) j =
     (if j_status j = Pending then j\<lparr>j_status := Running, j_started_at := Some now\<rparr> else j)"
| "runner_job (Output jid line) j =
     (if j_status j = Running then j\<lparr>j_log := j_log j @ [line]\<rparr> else j)"
| "runner_job (Exit jid code entries err now) j =
     (if j_status j = Running then
        (if code = 0 then
           j\<lparr>j_status := Completed, j_result := derive_result entries,
             j_finished_at := Some now, j_exit_code := Some code\<rparr>
         else
           j\<lparr>j_status := Failed, j_error := Some err,
             j_finished_at := Some now, j_exit_code := Some code\<rparr>)
      else j)"
| "runner_job (Timeout jid now) j =
     (if j_status j = Running then
        j\<lparr>j_status := Failed, j_error := Some ''Job timed out'', j_finished_at := Some now\<rparr>
      else j)"
| "runner_job (CancelDone jid now) j =
     (if j_status j = Running \<and> j_cancel_requested j then
        j\<lparr>j_status := Cancelled, j_error := Some ''Job cancelled'', j_finished_at := Some now\<rparr>
      else j)"

text \<open>Modelled from the spec: the job of \<open>jobs.manager\<close> that a Runner event is about.\<close>

fun event_job :: "runner_event \<Rightarrow> string" where
  "event_job (Start jid now) = jid"
| "event_job (Output jid line) = jid"
| "event_job (Exit jid code entries err now) = jid"
| "event_job (Timeout jid now) = jid"
| "event_job (CancelDone jid now) = jid"

text \<open>
  Modelled from the spec: one Runner event on the store of \<open>jobs.manager\<close>; a job starts
  only while a slot is free (section 5).
\<close>

definition runner_step :: "runner_event \<Rightarrow> job_store \<Rightarrow> job_store" where
  "runner_step ev store =
     (case ev of
        Start jid now \<Rightarrow>
          if slot_available store then update_job jid (runner_job ev) store else store
      | _ \<Rightarrow> update_job (event_job ev) (runner_job ev) store)"

text \<open>
  Modelled from the spec: the operations of \<open>jobs.manager\<close> that change the store:
  \<open>submit\<close> (request and time), \<open>cancel\<close>, and the events of the Job Runners. The
  operations \<open>get_status\<close>, \<open>get_result\<close>, \<open>get_log\<close> and \<open>list\<close> only read it.
\<close>

datatype operation =
    OpSubmit submit_request nat
  | OpCancel string
  | OpRunner runner_event

definition apply_op :: "os_env \<Rightarrow> operation \<Rightarrow> job_store \<Rightarrow> job_store" where
  "apply_op env op store =
     (case op of
        OpSubmit req now \<Rightarrow> snd (mgr_submit_job env now req store)
      | OpCancel jid \<Rightarrow> snd (mgr_cancel_job jid store)
      | OpRunner ev \<Rightarrow> runner_step ev store)"

text \<open>Modelled from the spec: a sequence of operations on the store of \<open>jobs.manager\<close>.\<close>

fun run_ops :: "os_env \<Rightarrow> operation list \<Rightarrow> job_store \<Rightarrow> job_store" where
  "run_ops env [] store = store"
| "run_ops env (op # ops) store = run_ops env ops (apply_op env op store)"

text \<open>
  Modelled from the spec: the moves that section 3 allows the status of a record of
  \<open>jobs.manager\<close> in one operation: none, pending to running, or running to a terminal
  state.
\<close>

definition status_move :: "job_status \<Rightarrow> job_status \<Rightarrow> bool" where
  "status_move a b = (a = b \<or> (a = Pending \<and> b = Running) \<or> (a = Running \<and> terminal b))"

section \<open>Example inputs\<close>

definition example_entries_no_run :: "dir_entry list" where
  "example_entries_no_run =
     [\<lparr>entry_name = ''cyclisation_config.cfg'', entry_is_dir = False\<rparr>,
      \<lparr>entry_name = ''data'', entry_is_dir = True\<rparr>,
      \<lparr>entry_name = ''run.log'', entry_is_dir = False\<rparr>]"

definition example_entries :: "dir_entry list" where
  "example_entries =
     [\<lparr>entry_name = ''run.log'', entry_is_dir = False\<rparr>,
      \<lparr>entry_name = ''data'', entry_is_dir = True\<rparr>,
      \<lparr>entry_name = ''run1'', entry_is_dir = True\<rparr>,
      \<lparr>entry_name = ''run2'', entry_is_dir = True\<rparr>]"

text \<open>
  A disk that holds \<open>prot.pdb\<close>, \<open>pep.pdb\<close> and \<open>pep2.pdb\<close> and nothing else, with the
  simplest path functions.
\<close>

definition example_env :: os_env where
  "example_env =
     \<lparr> path_exists = (\<lambda>p. p = ''prot.pdb'' \<or> p = ''pep.pdb'' \<or> p = ''pep2.pdb''),
       path_stem = (\<lambda>p. takeWhile (\<lambda>c. c \<noteq> CHR ''.'') p),
       path_suffix = (\<lambda>p. dropWhile (\<lambda>c. c \<noteq> CHR ''.'') p),
       path_str = (\<lambda>p. p),
       path_join = (\<lambda>p q. p @ ''/'' @ q),
       read_lines = (\<lambda>p. Inl ''No such file or directory''),
       scripts_dir = ''/opt/mcp/scripts'' \<rparr>"


text \<open>A store with one job that completed, with three lines of log.\<close>

definition example_job :: job where
  "example_job =
     \<lparr> j_id = ''0'', j_script_path = ''/opt/mcp/scripts/protein_peptide_docking.py'',
       j_args = [], j_name = ''demo'', j_status = Completed, j_submitted_at = 1,
       j_started_at = Some 2, j_finished_at = Some 7, j_exit_code = Some 0,
       j_log = [''start'', ''docking'', ''done''], j_result = Some ''run1'', j_error = None,
       j_cancel_requested = False \<rparr>"

definition example_store :: job_store where
  "example_store = \<lparr> jobs = [example_job], next_id = 1, max_concurrent = 2 \<rparr>"

text \<open>PDB records: a CA atom of residue 1 and of residue 2, and a hetero atom.\<close>

definition atom_ca_1 :: string where
  "atom_ca_1 = ''ATOM      2  CA  ALA B   1      11.104   6.134  -6.504  1.00  0.00''"

definition atom_ca_2 :: string where
  "atom_ca_2 = ''ATOM      7  CA  GLY B   2      12.560   9.580  -5.860  1.00  0.00''"

definition hetatm_ca_1 :: string where
  "hetatm_ca_1 = ''HETATM    1  CA  ALA B   1      11.104   6.134  -6.504  1.00  0.00''"

section \<open>Properties of run\_haddock3\<close>

lemma filter_first_split:
  "filter P xs = y # ys \<Longrightarrow>
     \<exists>pre post. xs = pre @ y # post \<and> (\<forall>x \<in> set pre. \<not> P x) \<and> P y"
proof (induction xs)
  case Nil
  then show ?case by simp
next
  case (Cons x xs)
  show ?case
  proof (cases "P x")
    case True
    with Cons.prems have "x = y" by simp
    with True have "x # xs = [] @ y # xs \<and> (\<forall>z \<in> set []. \<not> P z) \<and> P y" by simp
    then show ?thesis by blast
  next
    case False
    with Cons.prems have "filter P xs = y # ys" by simp
    from Cons.IH [OF this] obtain pre post
      where "xs = pre @ y # post" "\<forall>z \<in> set pre. \<not> P z" "P y" by blast
    with False have "x # xs = (x # pre) @ y # post \<and> (\<forall>z \<in> set (x # pre). \<not> P z) \<and> P y"
      by simp
    then show ?thesis by blast
  qed
qed

lemma no_run_dir_filter: "(\<forall>d \<in> set entries. \<not> is_run_dir d) \<Longrightarrow> filter is_run_dir entries = []"
  by (induction entries) simp_all

lemma some_run_dir_filter:
  "(\<exists>d \<in> set entries. is_run_dir d) \<Longrightarrow> \<exists>d rest. filter is_run_dir entries = d # rest"
proof -
  assume "\<exists>d \<in> set entries. is_run_dir d"
  then have "filter is_run_dir entries \<noteq> []"
    by (simp add: filter_empty_conv)
  then show ?thesis
    by (cases "filter is_run_dir entries") simp_all
qed

text \<open>
  C2: when the process exits with code 0 and the working directory holds no subdirectory
  whose name starts with "run", both copies of \<open>run_haddock3\<close> return \<open>None\<close> and not a
  pair; \<open>run_cyclic_peptide_cyclisation\<close>, which unpacks the result as a pair, then fails
  with \<open>TypeError\<close>. The process was started, so the working directory and the two files
  were written without an exception.
\<close>

theorem run_haddock3_none_without_run_dir:
  assumes "\<forall>d \<in> set entries. \<not> is_run_dir d"
  shows "run_haddock3 (Exited 0 out err) (Inr entries) = None
       \<and> run_haddock3_script (Exited 0 out err) (Inr entries) = None
       \<and> (path_exists env peptide_file \<longrightarrow>
            run_cyclic_peptide_cyclisation env None (Exited 0 out err) (Inr entries)
                peptide_file (Some n) wd False
              = Inl (TypeError ''cannot unpack non-iterable NoneType object''))"
proof -
  have f: "filter is_run_dir entries = []"
    using assms by (rule no_run_dir_filter)
  have a: "run_haddock3 (Exited 0 out err) (Inr entries) = None"
    by (simp add: run_haddock3_def f)
  have b: "run_haddock3_script (Exited 0 out err) (Inr entries) = None"
    by (simp add: run_haddock3_script_def f)
  have c: "path_exists env peptide_file \<longrightarrow>
            run_cyclic_peptide_cyclisation env None (Exited 0 out err) (Inr entries)
                peptide_file (Some n) wd False
              = Inl (TypeError ''cannot unpack non-iterable NoneType object'')"
    by (simp add: run_cyclic_peptide_cyclisation_def validate_input_file_def b
                  unpack_pair_def Let_def)
  from a b c show ?thesis by blast
qed

theorem run_haddock3_none_without_run_dir_witness:
  "list_all (\<lambda>d. \<not> is_run_dir d) example_entries_no_run
   \<and> run_haddock3 (Exited 0 [] []) (Inr example_entries_no_run) = None
   \<and> run_haddock3_script (Exited 0 [] []) (Inr example_entries_no_run) = None
   \<and> path_exists example_env ''pep.pdb''
   \<and> run_cyclic_peptide_cyclisation example_env None (Exited 0 [] [])
          (Inr example_entries_no_run)
          ''pep.pdb'' (Some 14) None False
        = Inl (TypeError ''cannot unpack non-iterable NoneType object'')"
proof -
  have h: "\<forall>d \<in> set example_entries_no_run. \<not> is_run_dir d"
    by (simp add: example_entries_no_run_def is_run_dir_def py_startswith_def)
  have e: "path_exists example_env ''pep.pdb''"
    by (simp add: example_env_def)
  from run_haddock3_none_without_run_dir
         [OF h, of "[]" "[]" example_env "''pep.pdb''" 14 None] h e
  show ?thesis by (simp add: list_all_iff)
qed

text \<open>
  C3: when the process exits with code 0 and the working directory holds at least one
  subdirectory whose name starts with "run", \<open>run_haddock3\<close> returns \<open>(True, d)\<close> where
  \<open>d\<close> is the first such subdirectory in the order of the scan: no entry before \<open>d\<close> is one.
\<close>

theorem run_haddock3_first_run_dir:
  assumes "\<exists>d \<in> set entries. is_run_dir d"
  shows "\<exists>pre d post. entries = pre @ d # post \<and> (\<forall>x \<in> set pre. \<not> is_run_dir x)
            \<and> is_run_dir d
            \<and> run_haddock3 (Exited 0 out err) (Inr entries) = Some (True, Some d)
            \<and> run_haddock3_script (Exited 0 out err) (Inr entries) = Some (True, Some d)"
proof -
  from some_run_dir_filter [OF assms] obtain d rest
    where f: "filter is_run_dir entries = d # rest" by blast
  from filter_first_split [OF f] obtain pre post
    where s: "entries = pre @ d # post" "\<forall>x \<in> set pre. \<not> is_run_dir x" "is_run_dir d"
    by blast
  have a: "run_haddock3 (Exited 0 out err) (Inr entries) = Some (True, Some d)"
    by (simp add: run_haddock3_def f)
  have b: "run_haddock3_script (Exited 0 out err) (Inr entries) = Some (True, Some d)"
    by (simp add: run_haddock3_script_def f)
  from s a b show ?thesis by blast
qed

theorem run_haddock3_first_run_dir_witness:
  "(\<exists>d \<in> set example_entries. is_run_dir d)
   \<and> run_haddock3 (Exited 0 [] []) (Inr example_entries)
       = Some (True, Some \<lparr>entry_name = ''run1'', entry_is_dir = True\<rparr>)"
proof -
  have h: "\<exists>d \<in> set example_entries. is_run_dir d"
    by (simp add: example_entries_def is_run_dir_def py_startswith_def)
  from run_haddock3_first_run_dir [OF h, of "[]" "[]"] obtain pre d post
    where s: "example_entries = pre @ d # post"
      and r: "run_haddock3 (Exited 0 [] []) (Inr example_entries) = Some (True, Some d)"
    by blast
  have "run_haddock3 (Exited 0 [] []) (Inr example_entries)
          = Some (True, Some \<lparr>entry_name = ''run1'', entry_is_dir = True\<rparr>)"
    by (simp add: run_haddock3_def example_entries_def is_run_dir_def py_startswith_def)
  with h show ?thesis by blast
qed

text \<open>
  C4: when the process exits with a nonzero code, or the timeout expires
  (\<open>subprocess.TimeoutExpired\<close>), \<open>run_haddock3\<close> returns \<open>(False, None)\<close>: failure, with no
  output directory.
\<close>

theorem run_haddock3_failure:
  assumes "res = TimeoutExpired \<or> (\<exists>rc out err. res = Exited rc out err \<and> rc \<noteq> 0)"
  shows "run_haddock3 res ls = Some (False, None)
       \<and> run_haddock3_script res ls = Some (False, None)"
  using assms by (auto simp: run_haddock3_def run_haddock3_script_def)

theorem run_haddock3_failure_witness:
  "run_haddock3 (Exited 1 [] ''boom'') (Inr example_entries) = Some (False, None)
   \<and> run_haddock3_script (Exited 1 [] ''boom'') (Inr example_entries) = Some (False, None)
   \<and> run_haddock3 TimeoutExpired (Inr example_entries) = Some (False, None)"
proof -
  have h1: "Exited 1 [] ''boom'' = TimeoutExpired
              \<or> (\<exists>rc out err. Exited 1 [] ''boom'' = Exited rc out err \<and> rc \<noteq> 0)"
    by simp
  have h2: "TimeoutExpired = TimeoutExpired
              \<or> (\<exists>rc out err. TimeoutExpired = Exited rc out err \<and> rc \<noteq> 0)"
    by simp
  from run_haddock3_failure [OF h1, of "Inr example_entries"]
       run_haddock3_failure [OF h2, of "Inr example_entries"]
  show ?thesis by blast
qed


section \<open>Properties of the submit tools\<close>




text \<open>
  C1, as amended: for every submit tool whose \<open>script_path\<close> is not resolvable to an
  existing file, the call returns an error dictionary at once and the store is the one it
  was given, so no Job Record is created. The tools do not check \<open>script_path\<close> themselves:
  the error is the one of \<open>job_manager.submit_job\<close>, which they do call when their own
  checks of the input files pass.
\<close>

theorem submit_unresolvable_script:
  shows "(\<not> path_exists env (req_script_path req) \<longrightarrow>
            mgr_submit_job env now req store
              = (error_dict (''Script not found: '' @ req_script_path req), store))
       \<and> (\<not> path_exists env (path_join env (scripts_dir env) ''protein_peptide_docking.py'') \<longrightarrow>
            (\<exists>msg. submit_protein_peptide_docking (mgr_submit_job env now) env protein_file
                      peptide_file output_dir restraints_file job_name store
                    = (error_dict msg, store)))
       \<and> (\<not> path_exists env (path_join env (scripts_dir env) ''cyclic_peptide_cyclisation.py'') \<longrightarrow>
            (\<exists>msg. submit_cyclic_peptide_cyclisation (mgr_submit_job env now) env peptide_file
                      peptide_len output_dir job_name store
                    = (error_dict msg, store)))
       \<and> (\<not> path_exists env (path_join env (scripts_dir env) ''information_driven_docking.py'') \<longrightarrow>
            (\<exists>msg. submit_information_driven_docking (mgr_submit_job env now) env protein_file
                      peptide_file apr app ppr ppp output_dir job_name store
                    = (error_dict msg, store)))"
proof -
  have a: "\<not> path_exists env (req_script_path req) \<longrightarrow>
            mgr_submit_job env now req store
              = (error_dict (''Script not found: '' @ req_script_path req), store)"
    by (simp add: mgr_submit_job_def)
  have b: "\<not> path_exists env (path_join env (scripts_dir env) ''protein_peptide_docking.py'') \<longrightarrow>
            (\<exists>msg. submit_protein_peptide_docking (mgr_submit_job env now) env protein_file
                      peptide_file output_dir restraints_file job_name store
                    = (error_dict msg, store))"
    by (auto simp: submit_protein_peptide_docking_def mgr_submit_job_def Let_def)
  have c: "\<not> path_exists env (path_join env (scripts_dir env) ''cyclic_peptide_cyclisation.py'') \<longrightarrow>
            (\<exists>msg. submit_cyclic_peptide_cyclisation (mgr_submit_job env now) env peptide_file
                      peptide_len output_dir job_name store
                    = (error_dict msg, store))"
    by (auto simp: submit_cyclic_peptide_cyclisation_def mgr_submit_job_def Let_def)
  have d: "\<not> path_exists env (path_join env (scripts_dir env) ''information_driven_docking.py'') \<longrightarrow>
            (\<exists>msg. submit_information_driven_docking (mgr_submit_job env now) env protein_file
                      peptide_file apr app ppr ppp output_dir job_name store
                    = (error_dict msg, store))"
    by (auto simp: submit_information_driven_docking_def mgr_submit_job_def Let_def)
  from a b c d show ?thesis by blast
qed

theorem submit_unresolvable_script_witness:
  "\<not> path_exists example_env
        (path_join example_env (scripts_dir example_env) ''protein_peptide_docking.py'')
   \<and> submit_protein_peptide_docking (mgr_submit_job example_env 3) example_env
         ''prot.pdb'' ''pep.pdb'' None None None example_store
       = (error_dict ''Script not found: /opt/mcp/scripts/protein_peptide_docking.py'',
          example_store)
   \<and> mgr_list_jobs example_store None = ([example_job], 1)"
proof -
  have h: "\<not> path_exists example_env
        (path_join example_env (scripts_dir example_env) ''protein_peptide_docking.py'')"
    by (simp add: example_env_def)
  from submit_unresolvable_script
         [of example_env _ 3 example_store "''prot.pdb''" "''pep.pdb''" None None None] h
  obtain msg where
    m: "submit_protein_peptide_docking (mgr_submit_job example_env 3) example_env
          ''prot.pdb'' ''pep.pdb'' None None None example_store = (error_dict msg, example_store)"
    by blast
  have "submit_protein_peptide_docking (mgr_submit_job example_env 3) example_env
          ''prot.pdb'' ''pep.pdb'' None None None example_store
        = (error_dict ''Script not found: /opt/mcp/scripts/protein_peptide_docking.py'',
           example_store)"
    by (simp add: submit_protein_peptide_docking_def mgr_submit_job_def Let_def example_env_def
          truthy_def)
  moreover have "mgr_list_jobs example_store None = ([example_job], 1)"
    by (simp add: mgr_list_jobs_def example_store_def)
  ultimately show ?thesis using h m by simp
qed

text \<open>
  C1, as stated, fails: with input files that exist and a script that does not, the docking
  tool does call \<open>submit_job\<close>; the recording manager receives the request with the
  unresolvable path.
\<close>

theorem submit_calls_manager_counterexample:
  "\<not> path_exists example_env
        (path_join example_env (scripts_dir example_env) ''protein_peptide_docking.py'')
   \<and> snd (submit_protein_peptide_docking recording_submit_job example_env
             ''prot.pdb'' ''pep.pdb'' None None None [])
       = [\<lparr> req_script_path = ''/opt/mcp/scripts/protein_peptide_docking.py'',
            req_args = [(''input_protein'', PyStr ''prot.pdb''),
                        (''input_peptide'', PyStr ''pep.pdb''),
                        (''output_dir'', PyNone), (''restraints_file'', PyNone)],
            req_job_name = ''protein_peptide_docking_pep'' \<rparr>]"
  by (simp add: submit_protein_peptide_docking_def recording_submit_job_def Let_def
        example_env_def truthy_def str_or_def opt_str_def)

text \<open>
  C5: when \<open>protein_file\<close>, \<open>peptide_file\<close> or a provided \<open>restraints_file\<close> does not
  exist, \<open>submit_protein_peptide_docking\<close> returns \<open>{"status": "error", "error": msg}\<close>
  with a non-empty message and the manager's state as it was given, whatever the manager
  is: \<open>submit_job\<close> is not called (the recording manager records no call), so no Job
  Record is created. A restraints file is provided when the argument is a non-empty
  string, which is how the condition \<open>restraints_file and ...\<close> reads it.
\<close>

theorem submit_docking_missing_input:
  assumes "\<not> path_exists env protein_file \<or> \<not> path_exists env peptide_file
           \<or> (\<exists>r. restraints_file = Some r \<and> r \<noteq> [] \<and> \<not> path_exists env r)"
  shows "\<exists>msg. msg \<noteq> []
           \<and> submit_protein_peptide_docking submit_job env protein_file peptide_file output_dir
                restraints_file job_name st = (error_dict msg, st)
           \<and> dict_get (error_dict msg) ''status'' = Some (PyStr ''error'')
           \<and> dict_get (error_dict msg) ''error'' = Some (PyStr msg)
           \<and> snd (submit_protein_peptide_docking recording_submit_job env protein_file
                     peptide_file output_dir restraints_file job_name calls) = calls"
proof -
  consider (a) "\<not> path_exists env protein_file"
    | (b) "path_exists env protein_file" "\<not> path_exists env peptide_file"
    | (c) "path_exists env protein_file" "path_exists env peptide_file"
          "\<exists>r. restraints_file = Some r \<and> r \<noteq> [] \<and> \<not> path_exists env r"
    using assms by blast
  then show ?thesis
  proof cases
    case a
    then show ?thesis
      by (intro exI [of _ "''Protein file not found: '' @ protein_file"])
         (simp add: submit_protein_peptide_docking_def error_dict_def dict_get_def Let_def)
  next
    case b
    then show ?thesis
      by (intro exI [of _ "''Peptide file not found: '' @ peptide_file"])
         (simp add: submit_protein_peptide_docking_def error_dict_def dict_get_def Let_def)
  next
    case c
    then obtain r where r: "restraints_file = Some r" "r \<noteq> []" "\<not> path_exists env r" by blast
    with c show ?thesis
      by (intro exI [of _ "''Restraints file not found: '' @ r"])
         (simp add: submit_protein_peptide_docking_def error_dict_def dict_get_def Let_def
            truthy_def)
  qed
qed


theorem submit_docking_missing_input_witness:
  "submit_protein_peptide_docking recording_submit_job example_env
       ''missing.pdb'' ''pep.pdb'' None None None []
     = (error_dict ''Protein file not found: missing.pdb'', [])
   \<and> submit_protein_peptide_docking recording_submit_job example_env
       ''prot.pdb'' ''pep.pdb'' None (Some ''ambig.tbl'') None []
     = (error_dict ''Restraints file not found: ambig.tbl'', [])"
proof -
  have h1: "\<not> path_exists example_env ''missing.pdb'' \<or> \<not> path_exists example_env ''pep.pdb''
           \<or> (\<exists>r. None = Some r \<and> r \<noteq> [] \<and> \<not> path_exists example_env r)"
    by (simp add: example_env_def)
  have h2: "\<not> path_exists example_env ''prot.pdb'' \<or> \<not> path_exists example_env ''pep.pdb''
           \<or> (\<exists>r. Some ''ambig.tbl'' = Some r \<and> r \<noteq> [] \<and> \<not> path_exists example_env r)"
    by (simp add: example_env_def)
  from submit_docking_missing_input [OF h1, of recording_submit_job None None "[]" "[]"]
  obtain m1 where
    "submit_protein_peptide_docking recording_submit_job example_env
       ''missing.pdb'' ''pep.pdb'' None None None [] = (error_dict m1, [])"
    by blast
  from submit_docking_missing_input [OF h2, of recording_submit_job None None "[]" "[]"]
  obtain m2 where
    "submit_protein_peptide_docking recording_submit_job example_env
       ''prot.pdb'' ''pep.pdb'' None (Some ''ambig.tbl'') None [] = (error_dict m2, [])"
    by blast
  show ?thesis
    by (simp add: submit_protein_peptide_docking_def Let_def example_env_def truthy_def)
qed

section \<open>Properties of the job manager\<close>

lemma length_update_job: "length (jobs (update_job jid f store)) = length (jobs store)"
  by (simp add: update_job_def)

lemma nth_update_job:
  "i < length (jobs store) \<Longrightarrow>
     jobs (update_job jid f store) ! i
       = (if j_id (jobs store ! i) = jid then f (jobs store ! i) else jobs store ! i)"
  by (simp add: update_job_def)

lemma runner_job_move: "status_move (j_status j) (j_status (runner_job ev j))"
  by (cases ev) (simp_all add: status_move_def terminal_def)

lemma runner_job_id: "j_id (runner_job ev j) = j_id j"
  by (cases ev) simp_all

lemma status_move_refl: "status_move a a"
  by (simp add: status_move_def)

lemma terminal_move: "terminal a \<Longrightarrow> status_move a b \<Longrightarrow> b = a"
  by (auto simp: status_move_def terminal_def)

lemma length_runner_step: "length (jobs (runner_step ev store)) = length (jobs store)"
  by (cases ev) (simp_all add: runner_step_def length_update_job)

lemma nth_runner_step:
  assumes "i < length (jobs store)"
  shows "jobs (runner_step ev store) ! i = jobs store ! i
       \<or> jobs (runner_step ev store) ! i = runner_job ev (jobs store ! i)"
  using assms by (cases ev) (simp_all add: runner_step_def nth_update_job)

lemma apply_op_length: "length (jobs store) \<le> length (jobs (apply_op env op store))"
  by (cases op)
     (simp_all add: apply_op_def mgr_submit_job_def mgr_cancel_job_def Let_def
        length_update_job length_runner_step split: option.splits)

lemma apply_op_nth:
  assumes "i < length (jobs store)"
  shows "status_move (j_status (jobs store ! i)) (j_status (jobs (apply_op env op store) ! i))
       \<and> j_id (jobs (apply_op env op store) ! i) = j_id (jobs store ! i)"
proof (cases op)
  case (OpSubmit req now)
  with assms show ?thesis
    by (simp add: apply_op_def mgr_submit_job_def Let_def nth_append status_move_refl)
next
  case (OpCancel jid)
  with assms show ?thesis
    by (simp add: apply_op_def mgr_cancel_job_def nth_update_job status_move_refl
          split: option.splits)
next
  case (OpRunner ev)
  from nth_runner_step [OF assms, of ev] show ?thesis
  proof
    assume "jobs (runner_step ev store) ! i = jobs store ! i"
    with OpRunner show ?thesis by (simp add: apply_op_def status_move_refl)
  next
    assume "jobs (runner_step ev store) ! i = runner_job ev (jobs store ! i)"
    with OpRunner show ?thesis by (simp add: apply_op_def runner_job_move runner_job_id)
  qed
qed

lemma run_ops_path:
  "i < length (jobs store) \<Longrightarrow>
     i < length (jobs (run_ops env ops store))
     \<and> status_move\<^sup>*\<^sup>* (j_status (jobs store ! i)) (j_status (jobs (run_ops env ops store) ! i))
     \<and> j_id (jobs (run_ops env ops store) ! i) = j_id (jobs store ! i)"
proof (induction ops arbitrary: store)
  case Nil
  then show ?case by simp
next
  case (Cons op ops)
  let ?s = "apply_op env op store"
  from Cons.prems apply_op_length [of store env op] have i: "i < length (jobs ?s)" by simp
  from apply_op_nth [OF Cons.prems, of env op]
  have m: "status_move (j_status (jobs store ! i)) (j_status (jobs ?s ! i))"
    and d: "j_id (jobs ?s ! i) = j_id (jobs store ! i)" by simp_all
  from Cons.IH [OF i]
  have l: "i < length (jobs (run_ops env ops ?s))"
    and p: "status_move\<^sup>*\<^sup>* (j_status (jobs ?s ! i)) (j_status (jobs (run_ops env ops ?s) ! i))"
    and e: "j_id (jobs (run_ops env ops ?s) ! i) = j_id (jobs ?s ! i)" by simp_all
  from m p have "status_move\<^sup>*\<^sup>* (j_status (jobs store ! i))
                   (j_status (jobs (run_ops env ops ?s) ! i))"
    by (rule converse_rtranclp_into_rtranclp)
  with l e d show ?case by simp
qed

lemma terminal_path: "status_move\<^sup>*\<^sup>* a b \<Longrightarrow> terminal a \<Longrightarrow> b = a"
  by (induction rule: rtranclp_induct) (auto dest: terminal_move)

text \<open>
  C6: for a job of the store, \<open>get_job_log(job_id, tail=N)\<close> returns the full log for
  \<open>N = 0\<close>, and for \<open>N > 0\<close> exactly the last \<open>min(N, total_line_count)\<close> lines in
  their original order (a suffix of the log of that length); without \<open>tail\<close> the tool asks
  for 50 lines.
\<close>

theorem get_job_log_tail:
  assumes "find_job store jid = Some j"
  shows "get_job_log (mgr_get_job_log store) jid (Some 0)
           = Inr \<lparr>lv_lines = j_log j, lv_total_line_count = length (j_log j)\<rparr>
       \<and> (0 < n \<longrightarrow>
            (\<exists>v pre. get_job_log (mgr_get_job_log store) jid (Some n) = Inr v
               \<and> j_log j = pre @ lv_lines v
               \<and> length (lv_lines v) = min n (length (j_log j))
               \<and> lv_total_line_count v = length (j_log j)))
       \<and> get_job_log (mgr_get_job_log store) jid None
           = get_job_log (mgr_get_job_log store) jid (Some 50)"
proof -
  let ?k = "length (j_log j) - min n (length (j_log j))"
  let ?v = "\<lparr>lv_lines = drop ?k (j_log j), lv_total_line_count = length (j_log j)\<rparr>"
  have a: "get_job_log (mgr_get_job_log store) jid (Some 0)
           = Inr \<lparr>lv_lines = j_log j, lv_total_line_count = length (j_log j)\<rparr>"
    using assms by (simp add: get_job_log_def mgr_get_job_log_def)
  have b: "0 < n \<longrightarrow>
            (\<exists>v pre. get_job_log (mgr_get_job_log store) jid (Some n) = Inr v
               \<and> j_log j = pre @ lv_lines v
               \<and> length (lv_lines v) = min n (length (j_log j))
               \<and> lv_total_line_count v = length (j_log j))"
  proof
    assume n: "0 < n"
    with assms have g: "get_job_log (mgr_get_job_log store) jid (Some n) = Inr ?v"
      by (simp add: get_job_log_def mgr_get_job_log_def)
    have p: "j_log j = take ?k (j_log j) @ lv_lines ?v" by simp
    have l: "length (lv_lines ?v) = min n (length (j_log j))" by auto
    have t: "lv_total_line_count ?v = length (j_log j)" by simp
    from g p l t show "\<exists>v pre. get_job_log (mgr_get_job_log store) jid (Some n) = Inr v
               \<and> j_log j = pre @ lv_lines v
               \<and> length (lv_lines v) = min n (length (j_log j))
               \<and> lv_total_line_count v = length (j_log j)" by blast
  qed
  have c: "get_job_log (mgr_get_job_log store) jid None
           = get_job_log (mgr_get_job_log store) jid (Some 50)"
    by (simp add: get_job_log_def)
  from a b c show ?thesis by blast
qed

theorem get_job_log_tail_witness:
  "find_job example_store ''0'' = Some example_job
   \<and> get_job_log (mgr_get_job_log example_store) ''0'' (Some 2)
       = Inr \<lparr>lv_lines = [''docking'', ''done''], lv_total_line_count = 3\<rparr>
   \<and> get_job_log (mgr_get_job_log example_store) ''0'' (Some 0)
       = Inr \<lparr>lv_lines = [''start'', ''docking'', ''done''], lv_total_line_count = 3\<rparr>
   \<and> get_job_log (mgr_get_job_log example_store) ''0'' None
       = Inr \<lparr>lv_lines = [''start'', ''docking'', ''done''], lv_total_line_count = 3\<rparr>"
proof -
  have h: "find_job example_store ''0'' = Some example_job"
    by (simp add: find_job_def example_store_def example_job_def)
  have l: "j_log example_job = [''start'', ''docking'', ''done'']"
    by (simp add: example_job_def)
  have p: "(0::nat) < 2" by simp
  from get_job_log_tail [OF h, of 2] p obtain v pre where
    "get_job_log (mgr_get_job_log example_store) ''0'' (Some 2) = Inr v"
    "j_log example_job = pre @ lv_lines v"
    "length (lv_lines v) = min 2 (length (j_log example_job))"
    by blast
  from h l show ?thesis
    by (simp add: get_job_log_def mgr_get_job_log_def)
qed

text \<open>
  C7: for a job already in a terminal state (completed, failed or cancelled),
  \<open>cancel_job(job_id)\<close> returns \<open>{status: noop, message}\<close>, which carries no error, and
  the store is unchanged: the job's record, with its \<open>finished_at\<close> and \<open>result\<close>, is the
  one it was.
\<close>

theorem cancel_terminal_noop:
  assumes "find_job store jid = Some j" and "terminal (j_status j)"
  shows "\<exists>msg. cancel_job mgr_cancel_job jid store
                 = ([(''status'', PyStr ''noop''), (''message'', PyStr msg)], store)
       \<and> dict_get (fst (cancel_job mgr_cancel_job jid store)) ''status'' = Some (PyStr ''noop'')
       \<and> dict_get (fst (cancel_job mgr_cancel_job jid store)) ''error'' = None
       \<and> find_job (snd (cancel_job mgr_cancel_job jid store)) jid = Some j"
  using assms by (simp add: cancel_job_def mgr_cancel_job_def dict_get_def)


theorem cancel_terminal_noop_witness:
  "find_job example_store ''0'' = Some example_job
   \<and> terminal (j_status example_job)
   \<and> cancel_job mgr_cancel_job ''0'' example_store
       = ([(''status'', PyStr ''noop''), (''message'', PyStr ''Job is already completed'')],
          example_store)"
proof -
  have h: "find_job example_store ''0'' = Some example_job"
    by (simp add: find_job_def example_store_def example_job_def)
  have t: "terminal (j_status example_job)"
    by (simp add: terminal_def example_job_def)
  have s: "status_name (j_status example_job) = ''completed''"
    by (simp add: status_name_def example_job_def)
  from cancel_terminal_noop [OF h t] obtain msg where
    "cancel_job mgr_cancel_job ''0'' example_store
       = ([(''status'', PyStr ''noop''), (''message'', PyStr msg)], example_store)"
    by blast
  from h t s show ?thesis
    by (simp add: cancel_job_def mgr_cancel_job_def)
qed

text \<open>
  C8: for every Job Record (the record at a position of the registry) and every sequence
  of operations, one operation leaves the status as it is or moves it from pending to
  running or from running to one of completed, failed and cancelled; over the whole
  sequence the record keeps its place and identifier, its status follows a path of such
  moves, and a terminal status never changes again.
\<close>

theorem status_monotonic:
  assumes "i < length (jobs store)"
  shows "i < length (jobs (apply_op env op store))
       \<and> status_move (j_status (jobs store ! i)) (j_status (jobs (apply_op env op store) ! i))
       \<and> i < length (jobs (run_ops env ops store))
       \<and> j_id (jobs (run_ops env ops store) ! i) = j_id (jobs store ! i)
       \<and> status_move\<^sup>*\<^sup>* (j_status (jobs store ! i)) (j_status (jobs (run_ops env ops store) ! i))
       \<and> (terminal (j_status (jobs store ! i))
            \<longrightarrow> j_status (jobs (run_ops env ops store) ! i) = j_status (jobs store ! i))"
proof -
  from assms apply_op_length [of store env op]
  have a: "i < length (jobs (apply_op env op store))" by simp
  from apply_op_nth [OF assms, of env op]
  have b: "status_move (j_status (jobs store ! i)) (j_status (jobs (apply_op env op store) ! i))"
    by simp
  from run_ops_path [OF assms, of env ops]
  have c: "i < length (jobs (run_ops env ops store))"
    and d: "j_id (jobs (run_ops env ops store) ! i) = j_id (jobs store ! i)"
    and e: "status_move\<^sup>*\<^sup>* (j_status (jobs store ! i))
              (j_status (jobs (run_ops env ops store) ! i))" by simp_all
  from e have f: "terminal (j_status (jobs store ! i))
            \<longrightarrow> j_status (jobs (run_ops env ops store) ! i) = j_status (jobs store ! i)"
    by (auto dest: terminal_path)
  from a b c d e f show ?thesis by blast
qed

theorem status_monotonic_witness:
  "0 < length (jobs example_store)
   \<and> terminal (j_status (jobs example_store ! 0))
   \<and> j_status (jobs (run_ops example_env
         [OpCancel ''0'', OpRunner (Start ''0'' 8), OpRunner (Timeout ''0'' 9)]
         example_store) ! 0) = Completed"
proof -
  have h: "0 < length (jobs example_store)"
    by (simp add: example_store_def)
  have c: "j_status (jobs example_store ! 0) = Completed"
    by (simp add: example_store_def example_job_def)
  then have t: "terminal (j_status (jobs example_store ! 0))"
    by (simp add: terminal_def)
  from status_monotonic [OF h, of example_env "OpCancel ''0''"
         "[OpCancel ''0'', OpRunner (Start ''0'' 8), OpRunner (Timeout ''0'' 9)]"] t
  have "j_status (jobs (run_ops example_env
         [OpCancel ''0'', OpRunner (Start ''0'' 8), OpRunner (Timeout ''0'' 9)]
         example_store) ! 0) = j_status (jobs example_store ! 0)"
    by blast
  with h t c show ?thesis by simp
qed

section \<open>Properties of the batch tool\<close>





section \<open>Properties of the peptide-length functions\<close>

lemma finite_residue_numbers: "finite acc \<Longrightarrow> finite (residue_numbers acc ls)"
  by (induction ls arbitrary: acc) (simp_all split: option.splits)

lemma ca_subset_residue_numbers:
  "ca_residues acc ls = Some S \<Longrightarrow> acc \<subseteq> acc' \<Longrightarrow> S \<subseteq> residue_numbers acc' ls"
proof (induction ls arbitrary: acc acc')
  case Nil
  then show ?case by simp
next
  case (Cons l ls)
  show ?case
  proof (cases "py_startswith l ''ATOM'' \<and> py_strip (py_slice l 12 16) = ''CA''")
    case True
    then have at: "is_atom_or_hetatm l" by (simp add: is_atom_or_hetatm_def)
    from True Cons.prems(1) obtain k where
      k: "py_int (py_strip (py_slice l 22 26)) = Some k"
      and r: "ca_residues (insert k acc) ls = Some S"
      by (auto split: option.splits)
    from Cons.prems(2) have "insert k acc \<subseteq> insert k acc'" by blast
    from Cons.IH [OF r this] at k show ?thesis by simp
  next
    case False
    with Cons.prems(1) have r: "ca_residues acc ls = Some S" by auto
    show ?thesis
    proof (cases "is_atom_or_hetatm l")
      case True
      show ?thesis
      proof (cases "py_int (py_strip (py_slice l 22 26))")
        case None
        with True Cons.IH [OF r Cons.prems(2)] show ?thesis by simp
      next
        case (Some k)
        from Cons.prems(2) have "acc \<subseteq> insert k acc'" by blast
        from Cons.IH [OF r this] True Some show ?thesis by simp
      qed
    next
      case nf: False
      with Cons.IH [OF r Cons.prems(2)] show ?thesis by simp
    qed
  qed
qed

text \<open>
  C10, as amended: for a readable PDB file whose CA atoms in ATOM records carry exactly the
  residue numbers 1 to \<open>n\<close> (\<open>n \<ge> 1\<close>, each field an integer) and in which no ATOM or
  HETATM record carries a residue number above \<open>n\<close>, \<open>get_peptide_length_from_pdb\<close> and
  \<open>estimate_peptide_length\<close> both return \<open>n\<close>.
\<close>

theorem peptide_length_agreement:
  assumes ca: "ca_residues {} ls = Some {1..n}"
    and n: "1 \<le> n"
    and le: "\<forall>k \<in> residue_numbers {} ls. k \<le> n"
  shows "get_peptide_length_from_pdb pdb_file (Inr ls) = Inr n
       \<and> estimate_peptide_length (Inr ls) = n"
proof -
  let ?R = "residue_numbers {} ls"
  have fin: "finite ?R" by (simp add: finite_residue_numbers)
  from ca_subset_residue_numbers [OF ca, of "{}"] have sub: "{1..n} \<subseteq> ?R" by simp
  with n have mem: "n \<in> ?R" by auto
  then have ne: "?R \<noteq> {}" by blast
  from le have "\<And>k. k \<in> ?R \<Longrightarrow> k \<le> n" by auto
  with fin mem have "Max ?R = n" by (intro Max_eqI) simp_all
  with ne have a: "get_peptide_length_from_pdb pdb_file (Inr ls) = Inr n"
    by (simp add: get_peptide_length_from_pdb_def Let_def)
  from n ca have b: "estimate_peptide_length (Inr ls) = n"
    by (simp add: estimate_peptide_length_def)
  from a b show ?thesis by simp
qed

theorem peptide_length_agreement_witness:
  "ca_residues {} [atom_ca_1, atom_ca_2] = Some {1..2}
   \<and> get_peptide_length_from_pdb ''pep.pdb'' (Inr [atom_ca_1, atom_ca_2]) = Inr 2
   \<and> estimate_peptide_length (Inr [atom_ca_1, atom_ca_2]) = 2"
proof -
  have h1: "ca_residues {} [atom_ca_1, atom_ca_2] = Some {1..2}"
    unfolding atom_ca_1_def atom_ca_2_def by code_simp
  have h2: "(1::int) \<le> 2" by simp
  have h3: "\<forall>k \<in> residue_numbers {} [atom_ca_1, atom_ca_2]. k \<le> 2"
    unfolding atom_ca_1_def atom_ca_2_def by code_simp
  from peptide_length_agreement [OF h1 h2 h3, of "''pep.pdb''"] h1
  show ?thesis by simp
qed

text \<open>
  C10, as stated, fails: for a file with one HETATM record of residue 1,
  \<open>get_peptide_length_from_pdb\<close> returns 1 and \<open>estimate_peptide_length\<close> returns 0.
\<close>

theorem peptide_length_counterexample:
  "get_peptide_length_from_pdb ''pep.pdb'' (Inr [hetatm_ca_1]) = Inr 1
   \<and> estimate_peptide_length (Inr [hetatm_ca_1]) = 0"
  unfolding hetatm_ca_1_def by code_simp

end
